theory Spec2Isabelle
  imports Complex_Main "HOL-Library.Sublist"
begin

section \<open>JavaScript values\<close>

text \<open>
  The program is JavaScript (\<^verbatim>\<open>src/index.js\<close>). A log entry is whatever a line parser
  returns: an object for an nginx, Apache or text line, and any JSON value for a
  JSON line. Values are modelled by \<open>jsval\<close>:
  \<^item> \<open>JNum\<close> holds an integer (status codes, sizes and counts; fractional numbers and
    integers beyond the exactly representable range are outside the model);
  \<^item> \<open>JStr\<close> holds a string, a list of code units below 256;
  \<^item> \<open>JObj\<close> holds the own enumerable properties of an ordinary object, in the
    order in which JavaScript enumerates them;
  \<^item> \<open>JFun\<close> is a built-in function, named; it only appears as a property
    inherited from \<^verbatim>\<open>Object.prototype\<close>.
  The value \<^verbatim>\<open>undefined\<close> is the \<open>None\<close> of \<open>jsval option\<close>: it is what a property
  lookup returns for a missing property.
\<close>

datatype jsval =
    JNull
  | JBool bool
  | JNum int
  | JStr string
  | JArr "jsval list"
  | JObj "(string \<times> jsval) list"
  | JFun string

type_synonym jsobject = "(string \<times> jsval) list"

subsection \<open>Decimal numerals\<close>

definition digit_char :: "nat \<Rightarrow> char" where
  "digit_char d = char_of (48 + d)"

fun string_of_nat :: "nat \<Rightarrow> string" where
  "string_of_nat n =
     (if n < 10 then [digit_char n]
      else string_of_nat (n div 10) @ [digit_char (n mod 10)])"

declare string_of_nat.simps [simp del]

definition string_of_int :: "int \<Rightarrow> string" where
  "string_of_int i = (if i < 0 then CHR ''-'' # string_of_nat (nat (- i)) else string_of_nat (nat i))"

definition is_digit :: "char \<Rightarrow> bool" where
  "is_digit c = (48 \<le> (of_char c :: nat) \<and> (of_char c :: nat) \<le> 57)"

definition digit_val :: "char \<Rightarrow> int" where
  "digit_val c = of_char c - 48"

text \<open>\<^verbatim>\<open>parseInt\<close> on a run of decimal digits.\<close>

definition int_of_digits :: "string \<Rightarrow> int" where
  "int_of_digits s = foldl (\<lambda>acc c. 10 * acc + digit_val c) 0 s"

subsection \<open>Truthiness, string conversion, addition\<close>

text \<open>
  \<^verbatim>\<open>undefined\<close>, \<^verbatim>\<open>null\<close>, \<^verbatim>\<open>false\<close>, \<^verbatim>\<open>0\<close> and the empty string are falsy; every
  other value is truthy.
\<close>

fun truthy :: "jsval option \<Rightarrow> bool" where
  "truthy None = False"
| "truthy (Some JNull) = False"
| "truthy (Some (JBool b)) = b"
| "truthy (Some (JNum n)) = (n \<noteq> 0)"
| "truthy (Some (JStr s)) = (s \<noteq> [])"
| "truthy (Some (JArr xs)) = True"
| "truthy (Some (JObj ps)) = True"
| "truthy (Some (JFun f)) = True"

text \<open>\<^verbatim>\<open>a || b\<close>, where \<open>b\<close> is a value.\<close>

definition or_else :: "jsval option \<Rightarrow> jsval \<Rightarrow> jsval" where
  "or_else a b = (if truthy a then the a else b)"

fun join :: "string \<Rightarrow> string list \<Rightarrow> string" where
  "join sep [] = []"
| "join sep [x] = x"
| "join sep (x # y # ys) = x @ sep @ join sep (y # ys)"

text \<open>
  \<^verbatim>\<open>String(v)\<close>, which is also the conversion of \<open>v\<close> to a property key. The text of
  a built-in function is the one Node.js prints.
\<close>

fun ToString :: "jsval \<Rightarrow> string" where
  "ToString JNull = ''null''"
| "ToString (JBool b) = (if b then ''true'' else ''false'')"
| "ToString (JNum n) = string_of_int n"
| "ToString (JStr s) = s"
| "ToString (JArr xs) = join '','' (map (\<lambda>x. if x = JNull then [] else ToString x) xs)"
| "ToString (JObj ps) = ''[object Object]''"
| "ToString (JFun f) = ''function '' @ f @ ''() { [native code] }''"

text \<open>
  \<^verbatim>\<open>a + b\<close>: string concatenation as soon as one operand is a string or converts to
  one (arrays, objects, functions), numeric addition otherwise.
\<close>

fun stringy :: "jsval \<Rightarrow> bool" where
  "stringy (JStr s) = True"
| "stringy (JArr xs) = True"
| "stringy (JObj ps) = True"
| "stringy (JFun f) = True"
| "stringy v = False"

fun num_of :: "jsval \<Rightarrow> int" where
  "num_of (JNum n) = n"
| "num_of (JBool b) = (if b then 1 else 0)"
| "num_of v = 0"

definition js_add :: "jsval \<Rightarrow> jsval \<Rightarrow> jsval" where
  "js_add a b =
     (if stringy a \<or> stringy b then JStr (ToString a @ ToString b)
      else JNum (num_of a + num_of b))"

subsection \<open>Objects\<close>

text \<open>
  The properties every ordinary object inherits from \<^verbatim>\<open>Object.prototype\<close>. The
  accessor \<^verbatim>\<open>__proto__\<close> returns the prototype object itself, which has no
  enumerable property.
\<close>

definition Object_prototype_methods :: "string list" where
  "Object_prototype_methods =
     [''__defineGetter__'', ''__defineSetter__'', ''hasOwnProperty'',
      ''__lookupGetter__'', ''__lookupSetter__'', ''isPrototypeOf'',
      ''propertyIsEnumerable'', ''toString'', ''valueOf'', ''toLocaleString'']"

definition Object_prototype :: "string \<Rightarrow> jsval option" where
  "Object_prototype k =
     (if k = ''__proto__'' then Some (JObj [])
      else if k = ''constructor'' then Some (JFun ''Object'')
      else if k \<in> set Object_prototype_methods then Some (JFun k)
      else None)"

text \<open>
  \<^verbatim>\<open>obj[key]\<close> on an ordinary object: the own property, else the inherited one, else
  \<^verbatim>\<open>undefined\<close>.
\<close>

definition obj_get :: "jsobject \<Rightarrow> string \<Rightarrow> jsval option" where
  "obj_get ps k = (case map_of ps k of Some v \<Rightarrow> Some v | None \<Rightarrow> Object_prototype k)"

text \<open>
  \<^verbatim>\<open>entry[field]\<close>. Entries are objects; for an entry that is a bare JSON string,
  number, boolean or array the lookup is modelled as \<^verbatim>\<open>undefined\<close> (lengths, indices
  and the methods of the other built-in prototypes are outside the model).
  \<^verbatim>\<open>null\<close> is never an entry: \<open>parseLogFile\<close> drops it, and a property lookup on it
  would throw.
\<close>

fun get_prop :: "jsval \<Rightarrow> string \<Rightarrow> jsval option" where
  "get_prop (JObj ps) k = obj_get ps k"
| "get_prop v k = None"

text \<open>
  An array index is the canonical decimal numeral of an integer below \<open>2^32 - 1\<close>.
  JavaScript enumerates the own properties of an object with the array indices
  first, in ascending numeric order, and then the other keys in the order in which
  they were created.
\<close>

definition is_array_index :: "string \<Rightarrow> bool" where
  "is_array_index k =
     (k \<noteq> [] \<and> list_all is_digit k \<and> (if k = ''0'' then True else hd k \<noteq> CHR ''0'')
      \<and> int_of_digits k < 4294967295)"

fun insert_index :: "string \<Rightarrow> jsval \<Rightarrow> jsobject \<Rightarrow> jsobject" where
  "insert_index k v [] = [(k, v)]"
| "insert_index k v ((k', v') # ps) =
     (if is_array_index k' \<and> int_of_digits k' < int_of_digits k
      then (k', v') # insert_index k v ps
      else (k, v) # (k', v') # ps)"

text \<open>
  \<^verbatim>\<open>obj[key] = v\<close> on an ordinary object, for a primitive value \<open>v\<close>: an own property
  is overwritten in place; a new one is created, at its place in the enumeration
  order; the key \<^verbatim>\<open>__proto__\<close> is the inherited setter, which ignores a value that is
  neither an object nor \<^verbatim>\<open>null\<close>.
\<close>

definition obj_set :: "jsobject \<Rightarrow> string \<Rightarrow> jsval \<Rightarrow> jsobject" where
  "obj_set ps k v =
     (if map_of ps k \<noteq> None then map (\<lambda>(k', v'). if k' = k then (k', v) else (k', v')) ps
      else if k = ''__proto__'' then ps
      else if is_array_index k then insert_index k v ps
      else ps @ [(k, v)])"

subsection \<open>Serialisation\<close>





subsection \<open>Exceptions\<close>

text \<open>
  A function that can throw returns a sum: \<open>Inl\<close> the exception. \<open>IOError\<close> is the
  failure of \<^verbatim>\<open>fs.readFileSync\<close>, \<open>SyntaxError\<close> the one \<^verbatim>\<open>new RegExp\<close> throws for
  an invalid pattern.
\<close>

datatype error = IOError | SyntaxError

section \<open>Lines and patterns\<close>

text \<open>
  The white space that \<^verbatim>\<open>trim\<close> removes and that \<^verbatim>\<open>\S\<close> excludes: tab, line feed,
  vertical tab, form feed, carriage return, space and no-break space (the white
  space and line terminators of JavaScript among the code units below 256).
\<close>

definition is_ws :: "char \<Rightarrow> bool" where
  "is_ws c = (of_char c \<in> set [9, 10, 11, 12, 13, 32, 160 :: nat])"

definition trim :: "string \<Rightarrow> string" where
  "trim s = rev (dropWhile is_ws (rev (dropWhile is_ws s)))"

text \<open>\<^verbatim>\<open>content.split('\n')\<close>: never empty; the empty content has one empty line.\<close>

fun split_nl :: "string \<Rightarrow> string list" where
  "split_nl [] = [[]]"
| "split_nl (c # cs) =
     (if c = CHR 0x0A then [] # split_nl cs
      else (case split_nl cs of l # ls \<Rightarrow> (c # l) # ls | [] \<Rightarrow> [[c]]))"

text \<open>
  The four regular expressions of the source are anchored sequences of literal
  characters and repeated character classes, some of them capture groups. Such a
  sequence is matched as a backtracking matcher does: each repetition tries its
  lengths in order of preference (greedy: longest first; lazy: shortest first) and
  the first length for which the rest of the pattern matches wins.
\<close>

datatype cclass = NonSpace | Digit | NotBracket | Dot

fun in_class :: "cclass \<Rightarrow> char \<Rightarrow> bool" where
  "in_class NonSpace c = (\<not> is_ws c)"
| "in_class Digit c = is_digit c"
| "in_class NotBracket c = (c \<noteq> CHR '']'')"
| "in_class Dot c = (c \<noteq> CHR 0x0A \<and> c \<noteq> CHR 0x0D)"

datatype quant = OneOrMore | Exactly nat | LazyAny

datatype item = Lit char | Rep cclass quant | Group cclass quant

fun down_to :: "nat \<Rightarrow> nat \<Rightarrow> nat list" where
  "down_to lo 0 = (if lo = 0 then [0] else [])"
| "down_to lo (Suc n) = (if lo \<le> Suc n then Suc n # down_to lo n else [])"

text \<open>The lengths a repetition tries, when at most \<open>m\<close> characters of the class follow.\<close>

fun candidates :: "quant \<Rightarrow> nat \<Rightarrow> nat list" where
  "candidates OneOrMore m = down_to 1 m"
| "candidates (Exactly n) m = (if n \<le> m then [n] else [])"
| "candidates LazyAny m = rev (down_to 0 m)"

fun first_some :: "('a \<Rightarrow> 'b option) \<Rightarrow> 'a list \<Rightarrow> 'b option" where
  "first_some f [] = None"
| "first_some f (x # xs) = (case f x of Some y \<Rightarrow> Some y | None \<Rightarrow> first_some f xs)"

text \<open>
  \<open>regex_exec p s\<close> matches the whole of \<open>s\<close> against \<open>^p$\<close> and returns the captured
  groups, in order; \<open>None\<close> is \<^verbatim>\<open>null\<close>, no match.
\<close>

primrec regex_exec :: "item list \<Rightarrow> string \<Rightarrow> string list option" where
  "regex_exec [] s = (if s = [] then Some [] else None)"
| "regex_exec (it # its) s =
     (case it of
        Lit c \<Rightarrow>
          (case s of [] \<Rightarrow> None
           | x # xs \<Rightarrow> if x = c then regex_exec its xs else None)
      | Rep cl q \<Rightarrow>
          first_some (\<lambda>k. regex_exec its (drop k s))
            (candidates q (length (takeWhile (in_class cl) s)))
      | Group cl q \<Rightarrow>
          first_some (\<lambda>k. map_option ((#) (take k s)) (regex_exec its (drop k s)))
            (candidates q (length (takeWhile (in_class cl) s))))"

definition regex_test :: "item list \<Rightarrow> string \<Rightarrow> bool" where
  "regex_test p s = (regex_exec p s \<noteq> None)"

definition lits :: "string \<Rightarrow> item list" where
  "lits s = map Lit s"

definition dquote :: string where
  "dquote = [CHR 0x22]"

section \<open>Format detector\<close>

text \<open>
  \<^verbatim>\<open>/^\S+ \S+ \S+ \[[^\]]+\] "\S+ \S+ \S+" \d{3} \d+ ".*?" ".*?"$/\<close> and
  \<^verbatim>\<open>/^\S+ \S+ \S+ \[[^\]]+\] "\S+ \S+ \S+" \d{3} \d+$/\<close>
\<close>

definition apachePattern :: "item list" where
  "apachePattern =
     [Rep NonSpace OneOrMore] @ lits '' '' @ [Rep NonSpace OneOrMore] @ lits '' ''
     @ [Rep NonSpace OneOrMore] @ lits '' ['' @ [Rep NotBracket OneOrMore] @ lits ''] ''
     @ lits dquote @ [Rep NonSpace OneOrMore] @ lits '' '' @ [Rep NonSpace OneOrMore]
     @ lits '' '' @ [Rep NonSpace OneOrMore] @ lits dquote @ lits '' ''
     @ [Rep Digit (Exactly 3)] @ lits '' '' @ [Rep Digit OneOrMore]"

definition nginxPattern :: "item list" where
  "nginxPattern =
     apachePattern @ lits '' '' @ lits dquote @ [Rep Dot LazyAny] @ lits dquote
     @ lits '' '' @ lits dquote @ [Rep Dot LazyAny] @ lits dquote"

text \<open>
  \<^verbatim>\<open>JSON.parse\<close> is a built-in of the language: the functions that call it take it
  as the parameter \<open>JSON_parse\<close>, which returns \<open>None\<close> where \<^verbatim>\<open>JSON.parse\<close> throws.

  \<^verbatim>\<open>
  const lines = content.split('\n').filter(l => l.trim());
  if (lines.length === 0) return 'text';
  const firstLine = lines[0];
  try { JSON.parse(firstLine); return 'json'; } catch {}
  if (nginxPattern.test(firstLine)) return 'nginx';
  if (apachePattern.test(firstLine)) return 'apache';
  return 'text';
  \<close>
\<close>

definition detectFormat :: "(string \<Rightarrow> jsval option) \<Rightarrow> string \<Rightarrow> string" where
  "detectFormat JSON_parse content =
     (let lines = filter (\<lambda>l. trim l \<noteq> []) (split_nl content)
      in case lines of
           [] \<Rightarrow> ''text''
         | firstLine # rest \<Rightarrow>
             if JSON_parse firstLine \<noteq> None then ''json''
             else if regex_test nginxPattern firstLine then ''nginx''
             else if regex_test apachePattern firstLine then ''apache''
             else ''text'')"

section \<open>Line parsers\<close>

text \<open>
  \<^verbatim>\<open>/^(\S+) (\S+) (\S+) \[([^\]]+)\] "(\S+) (\S+) (\S+)" (\d{3}) (\d+)$/\<close> and
  \<^verbatim>\<open>/^(\S+) (\S+) (\S+) \[([^\]]+)\] "(\S+) (\S+) (\S+)" (\d{3}) (\d+) "(.*?)" "(.*?)"$/\<close>
\<close>

definition apacheRegex :: "item list" where
  "apacheRegex =
     [Group NonSpace OneOrMore] @ lits '' '' @ [Group NonSpace OneOrMore] @ lits '' ''
     @ [Group NonSpace OneOrMore] @ lits '' ['' @ [Group NotBracket OneOrMore] @ lits ''] ''
     @ lits dquote @ [Group NonSpace OneOrMore] @ lits '' '' @ [Group NonSpace OneOrMore]
     @ lits '' '' @ [Group NonSpace OneOrMore] @ lits dquote @ lits '' ''
     @ [Group Digit (Exactly 3)] @ lits '' '' @ [Group Digit OneOrMore]"

definition nginxRegex :: "item list" where
  "nginxRegex =
     apacheRegex @ lits '' '' @ lits dquote @ [Group Dot LazyAny] @ lits dquote
     @ lits '' '' @ lits dquote @ [Group Dot LazyAny] @ lits dquote"

text \<open>
  \<^verbatim>\<open>line.match(regex)\<close>: \<^verbatim>\<open>match[0]\<close> is the matched text, here the whole line, and
  \<^verbatim>\<open>match[i]\<close> is the \<open>i\<close>-th group.
\<close>

definition string_match :: "string \<Rightarrow> item list \<Rightarrow> string list option" where
  "string_match line regex = map_option ((#) line) (regex_exec regex line)"

definition parseInt :: "string \<Rightarrow> jsval" where
  "parseInt digits = JNum (int_of_digits digits)"

definition parseNginxLine :: "string \<Rightarrow> jsval" where
  "parseNginxLine line =
     (case string_match line nginxRegex of
        None \<Rightarrow> JNull
      | Some match \<Rightarrow>
          JObj [(''ip'', JStr (match ! 1)),
                (''identity'', JStr (match ! 2)),
                (''user'', JStr (match ! 3)),
                (''timestamp'', JStr (match ! 4)),
                (''method'', JStr (match ! 5)),
                (''path'', JStr (match ! 6)),
                (''protocol'', JStr (match ! 7)),
                (''status'', parseInt (match ! 8)),
                (''size'', parseInt (match ! 9)),
                (''referer'', or_else (Some (JStr (match ! 10))) (JStr ''-'')),
                (''userAgent'', or_else (Some (JStr (match ! 11))) (JStr ''-''))])"

definition parseApacheLine :: "string \<Rightarrow> jsval" where
  "parseApacheLine line =
     (case string_match line apacheRegex of
        None \<Rightarrow> JNull
      | Some match \<Rightarrow>
          JObj [(''ip'', JStr (match ! 1)),
                (''identity'', JStr (match ! 2)),
                (''user'', JStr (match ! 3)),
                (''timestamp'', JStr (match ! 4)),
                (''method'', JStr (match ! 5)),
                (''path'', JStr (match ! 6)),
                (''protocol'', JStr (match ! 7)),
                (''status'', parseInt (match ! 8)),
                (''size'', parseInt (match ! 9))])"

definition parseJsonLine :: "(string \<Rightarrow> jsval option) \<Rightarrow> string \<Rightarrow> jsval" where
  "parseJsonLine JSON_parse line =
     (case JSON_parse line of Some v \<Rightarrow> v | None \<Rightarrow> JNull)"

section \<open>Filter engine and aggregator\<close>


text \<open>
  \<^verbatim>\<open>entries.filter(entry => entry.status && statusCodes.includes(entry.status))\<close>,
  for a list of integers \<open>statusCodes\<close>: \<^verbatim>\<open>includes\<close> finds a value only if it is a
  number equal to an element.
\<close>

fun array_includes :: "int list \<Rightarrow> jsval option \<Rightarrow> bool" where
  "array_includes codes (Some (JNum n)) = (n \<in> set codes)"
| "array_includes codes v = False"

definition filterByStatus :: "jsval list \<Rightarrow> int list \<Rightarrow> jsval list" where
  "filterByStatus entries statusCodes =
     filter (\<lambda>entry. truthy (get_prop entry ''status'')
                      \<and> array_includes statusCodes (get_prop entry ''status'')) entries"

text \<open>
  \<^verbatim>\<open>
  const counts = {};
  entries.forEach(entry => {
    const value = entry[field] || 'unknown';
    counts[value] = (counts[value] || 0) + 1;
  });
  return counts;
  \<close>
  \<open>increment counts key\<close> is the statement \<^verbatim>\<open>counts[key] = (counts[key] || 0) + 1\<close>.
\<close>

definition increment :: "jsobject \<Rightarrow> string \<Rightarrow> jsobject" where
  "increment counts key =
     obj_set counts key (js_add (or_else (obj_get counts key) (JNum 0)) (JNum 1))"

definition count_step :: "string \<Rightarrow> jsobject \<Rightarrow> jsval \<Rightarrow> jsobject" where
  "count_step field counts entry =
     (let value = or_else (get_prop entry field) (JStr ''unknown'')
      in increment counts (ToString value))"

definition aggregateByField :: "jsval list \<Rightarrow> string \<Rightarrow> jsobject" where
  "aggregateByField entries field = foldl (count_step field) [] entries"

text \<open>
  \<^verbatim>\<open>new Date(v)\<close> and the local time of the date are built-ins: \<open>Date_local v\<close> is
  \<open>None\<close> for an invalid date and else the pair of \<^verbatim>\<open>getHours()\<close> and
  \<^verbatim>\<open>getMinutes()\<close>.
  \<^verbatim>\<open>
  entries.forEach(entry => {
    if (entry.timestamp) {
      const date = new Date(entry.timestamp);
      if (!isNaN(date.getTime())) {
        const hour = date.getHours();
        const minute = `${hour}:${String(date.getMinutes()).padStart(2, '0')}`;
        timeBuckets.hour[hour] = (timeBuckets.hour[hour] || 0) + 1;
        timeBuckets.minute[minute] = (timeBuckets.minute[minute] || 0) + 1;
      }
    }
  });
  \<close>
\<close>

record TimeBuckets =
  hour :: jsobject
  minute :: jsobject

definition padStart2 :: "string \<Rightarrow> string" where
  "padStart2 s = replicate (2 - length s) (CHR ''0'') @ s"

definition time_step :: "(jsval \<Rightarrow> (nat \<times> nat) option) \<Rightarrow> TimeBuckets \<Rightarrow> jsval \<Rightarrow> TimeBuckets" where
  "time_step Date_local timeBuckets entry =
     (if truthy (get_prop entry ''timestamp'') then
        (case Date_local (the (get_prop entry ''timestamp'')) of
           None \<Rightarrow> timeBuckets
         | Some (h, m) \<Rightarrow>
             (let hour' = string_of_nat h;
                  minute' = hour' @ '':'' @ padStart2 (string_of_nat m)
              in \<lparr> hour = increment (hour timeBuckets) hour',
                     minute = increment (minute timeBuckets) minute' \<rparr>))
      else timeBuckets)"

definition calculateTimeStats :: "(jsval \<Rightarrow> (nat \<times> nat) option) \<Rightarrow> jsval list \<Rightarrow> TimeBuckets" where
  "calculateTimeStats Date_local entries =
     foldl (time_step Date_local) \<lparr> hour = [], minute = [] \<rparr> entries"

section \<open>File parser\<close>

text \<open>
  The parsed log and the summary both have a field \<open>format\<close>: the two records get
  it from a common parent, so that \<open>format\<close> reads either.
\<close>

record Formatted =
  format :: string

record ParsedLog = Formatted +
  entries :: "jsval list"
  totalLines :: nat
  parsedEntries :: nat

text \<open>The \<^verbatim>\<open>switch\<close> of \<open>parseLogFile\<close>, applied to one line.\<close>

definition parseLine :: "(string \<Rightarrow> jsval option) \<Rightarrow> string \<Rightarrow> string \<Rightarrow> jsval" where
  "parseLine JSON_parse detectedFormat line =
     (if detectedFormat = ''nginx'' then parseNginxLine line
      else if detectedFormat = ''apache'' then parseApacheLine line
      else if detectedFormat = ''json'' then parseJsonLine JSON_parse line
      else JObj [(''raw'', JStr line)])"

text \<open>
  The file system is a map from paths to contents; \<^verbatim>\<open>fs.readFileSync\<close> throws for a
  path that has no content. An omitted \<open>format\<close> is \<^verbatim>\<open>'auto'\<close>.
\<close>

definition parseLogFile ::
  "(string \<Rightarrow> jsval option) \<Rightarrow> (string \<rightharpoonup> string) \<Rightarrow> string \<Rightarrow> string \<Rightarrow> error + ParsedLog" where
  "parseLogFile JSON_parse fs filePath fmt =
     (case fs filePath of
        None \<Rightarrow> Inl IOError
      | Some content \<Rightarrow>
          (let detectedFormat = (if fmt = ''auto'' then detectFormat JSON_parse content else fmt);
               lines = filter (\<lambda>l. trim l \<noteq> []) (split_nl content);
               entries' = filter (\<lambda>entry. entry \<noteq> JNull)
                           (map (parseLine JSON_parse detectedFormat) lines)
           in Inr \<lparr> format = detectedFormat,
                    entries = entries',
                    totalLines = length lines,
                    parsedEntries = length entries' \<rparr>))"

section \<open>Summary generator\<close>

text \<open>A field of the summary that may be missing is an \<open>option\<close>: \<open>None\<close> is "no such key".\<close>

record Summary = Formatted +
  totalEntries :: nat
  fieldsDetected :: "string list"
  statusCounts :: "jsobject option"
  errorCount :: "nat option"
  errorRate :: "string option"
  clientErrors :: "nat option"
  serverErrors :: "nat option"
  topPaths :: "(string \<times> jsval) list option"
  timeStats :: "TimeBuckets option"

text \<open>\<^verbatim>\<open>Object.keys\<close>, and \<^verbatim>\<open>add\<close> on a \<^verbatim>\<open>Set\<close>, which keeps the order of first insertion.\<close>

fun Object_keys :: "jsval \<Rightarrow> string list" where
  "Object_keys (JObj ps) = map fst ps"
| "Object_keys (JArr xs) = map string_of_nat [0..<length xs]"
| "Object_keys (JStr s) = map string_of_nat [0..<length s]"
| "Object_keys v = []"

definition set_add :: "string list \<Rightarrow> string \<Rightarrow> string list" where
  "set_add acc key = (if key \<in> set acc then acc else acc @ [key])"

text \<open>
  \<^verbatim>\<open>x.toFixed(2)\<close>: the decimal numeral of the multiple of \<open>1/100\<close> nearest to \<open>x\<close>,
  the larger one on a tie. The quotient is computed here in exact arithmetic; the
  double-precision quotient of the program can round the other way when the exact
  value lies on such a tie.
\<close>

definition toFixed2 :: "rat \<Rightarrow> string" where
  "toFixed2 x =
     (let n = \<lfloor>\<bar>x\<bar> * 100 + 1 / 2\<rfloor>
      in (if x < 0 then [CHR ''-''] else [])
         @ string_of_int (n div 100) @ ''.'' @ padStart2 (string_of_int (n mod 100)))"

text \<open>
  \<^verbatim>\<open>a - b\<close> on the values of a mapping of counts: a number, or \<open>None\<close> for
  \<^verbatim>\<open>NaN\<close>. Only the values that \<open>aggregateByField\<close> stores reach it: counts, and
  the texts that \<open>js_add\<close> builds from an inherited property, none of which is numeric.
\<close>

fun to_number :: "jsval \<Rightarrow> int option" where
  "to_number (JNum n) = Some n"
| "to_number (JStr s) =
     (if trim s = [] then Some 0
      else if list_all is_digit (trim s) then Some (int_of_digits (trim s))
      else None)"
| "to_number v = None"

definition js_sub :: "jsval \<Rightarrow> jsval \<Rightarrow> int option" where
  "js_sub a b =
     (case to_number a of
        None \<Rightarrow> None
      | Some x \<Rightarrow> (case to_number b of None \<Rightarrow> None | Some y \<Rightarrow> Some (x - y)))"

text \<open>
  \<^verbatim>\<open>xs.sort(cmp)\<close> is a stable sort: \<open>b\<close> moves before \<open>a\<close> only if \<open>cmp a b > 0\<close>. A
  comparator result of \<^verbatim>\<open>NaN\<close> counts as \<open>0\<close>.
\<close>

fun insert_by :: "('a \<Rightarrow> 'a \<Rightarrow> int option) \<Rightarrow> 'a \<Rightarrow> 'a list \<Rightarrow> 'a list" where
  "insert_by cmp x [] = [x]"
| "insert_by cmp x (y # ys) =
     (if 0 < (case cmp x y of None \<Rightarrow> 0 | Some d \<Rightarrow> d) then y # insert_by cmp x ys
      else x # y # ys)"

definition array_sort :: "('a \<Rightarrow> 'a \<Rightarrow> int option) \<Rightarrow> 'a list \<Rightarrow> 'a list" where
  "array_sort cmp xs = foldr (insert_by cmp) xs []"

text \<open>
  \<^verbatim>\<open>
  const { entries, format } = parsed;
  const summary = { format, totalEntries: entries.length, fieldsDetected: [] };
  if (entries.length === 0) return summary;
  const fields = new Set();
  entries.forEach(entry => { Object.keys(entry).forEach(key => fields.add(key)); });
  summary.fieldsDetected = Array.from(fields);
  if (format === 'nginx' || format === 'apache') {
    const statusCounts = aggregateByField(entries, 'status');
    summary.statusCounts = statusCounts;
    const errorEntries = filterByStatus(entries, [400, 401, 403, 404, 500, 502, 503, 504]);
    summary.errorCount = errorEntries.length;
    summary.errorRate = ((errorEntries.length / entries.length) * 100).toFixed(2) + '%';
    const status4xx = filterByStatus(entries, [400, 401, 403, 404]).length;
    const status5xx = filterByStatus(entries, [500, 502, 503, 504]).length;
    summary.clientErrors = status4xx;
    summary.serverErrors = status5xx;
  }
  if (format === 'nginx' || format === 'apache') {
    const pathCounts = aggregateByField(entries, 'path');
    const sortedPaths = Object.entries(pathCounts).sort((a, b) => b[1] - a[1]).slice(0, 10);
    summary.topPaths = sortedPaths;
  }
  const timeStats = calculateTimeStats(entries);
  summary.timeStats = timeStats;
  return summary;
  \<close>
  The two blocks guarded by the format are \<open>status_analysis\<close> and \<open>top_paths\<close>.
\<close>

definition status_analysis :: "jsval list \<Rightarrow> Summary \<Rightarrow> Summary" where
  "status_analysis es summary =
     (let errorEntries = filterByStatus es [400, 401, 403, 404, 500, 502, 503, 504];
          status4xx = length (filterByStatus es [400, 401, 403, 404]);
          status5xx = length (filterByStatus es [500, 502, 503, 504])
      in summary
           \<lparr> statusCounts := Some (aggregateByField es ''status''),
             errorCount := Some (length errorEntries),
             errorRate := Some (toFixed2 (of_nat (length errorEntries) / of_nat (length es) * 100) @ ''%''),
             clientErrors := Some status4xx,
             serverErrors := Some status5xx \<rparr>)"

definition top_paths :: "jsval list \<Rightarrow> Summary \<Rightarrow> Summary" where
  "top_paths es summary =
     (let pathCounts = aggregateByField es ''path'';
          sortedPaths = take 10 (array_sort (\<lambda>a b. js_sub (snd b) (snd a)) pathCounts)
      in summary \<lparr> topPaths := Some sortedPaths \<rparr>)"

definition generateSummary :: "(jsval \<Rightarrow> (nat \<times> nat) option) \<Rightarrow> ParsedLog \<Rightarrow> Summary" where
  "generateSummary Date_local parsed =
     (let summary = \<lparr> format = format parsed,
                       totalEntries = length (entries parsed),
                       fieldsDetected = [],
                       statusCounts = None, errorCount = None, errorRate = None,
                       clientErrors = None, serverErrors = None,
                       topPaths = None, timeStats = None \<rparr>
      in if length (entries parsed) = 0 then summary
         else
           (let fields' = foldl (\<lambda>acc entry. foldl set_add acc (Object_keys entry)) []
                           (entries parsed);
                summary1 = summary \<lparr> fieldsDetected := fields' \<rparr>;
                summary2 = (if format parsed = ''nginx'' \<or> format parsed = ''apache''
                            then status_analysis (entries parsed) summary1 else summary1);
                summary3 = (if format parsed = ''nginx'' \<or> format parsed = ''apache''
                            then top_paths (entries parsed) summary2 else summary2)
            in summary3 \<lparr> timeStats := Some (calculateTimeStats Date_local (entries parsed)) \<rparr>))"

section \<open>Reference notions\<close>

text \<open>
  The notions in which the properties below are stated. Blank lines, the first-seen
  order and the top paths follow the specification's words.
\<close>

text \<open>A line is blank if it holds white space only.\<close>

definition nonblank_lines :: "string \<Rightarrow> string list" where
  "nonblank_lines content = filter (\<lambda>l. \<not> list_all is_ws l) (split_nl content)"

definition first_nonblank :: "string \<Rightarrow> string option" where
  "first_nonblank content = List.find (\<lambda>l. \<not> list_all is_ws l) (split_nl content)"

text \<open>The key under which \<open>aggregateByField\<close> counts an entry.\<close>

definition field_key :: "string \<Rightarrow> jsval \<Rightarrow> string" where
  "field_key field entry = ToString (or_else (get_prop entry field) (JStr ''unknown''))"

text \<open>
  An ordinary key is neither an array index nor the name of a property of
  \<^verbatim>\<open>Object.prototype\<close>.
\<close>

definition ordinary_key :: "string \<Rightarrow> bool" where
  "ordinary_key k = (\<not> is_array_index k \<and> Object_prototype k = None)"

text \<open>
  The distinct keys of a list in the order in which each is first seen, and the
  mapping that counts each of them, listed in that order.
\<close>

definition first_seen :: "string list \<Rightarrow> string list" where
  "first_seen ks = rev (remdups (rev ks))"

definition tally :: "string list \<Rightarrow> jsobject" where
  "tally ks = map (\<lambda>k. (k, JNum (int (count_list ks k)))) (first_seen ks)"

text \<open>
  The top paths as the specification words them: the pairs of a path value and its
  count, in first-seen order, sorted by descending count with a stable sort, cut
  to ten.
\<close>

definition topPaths_spec :: "jsval list \<Rightarrow> (string \<times> jsval) list" where
  "topPaths_spec es =
     take 10 (sort_key (\<lambda>p. - num_of (snd p)) (tally (map (field_key ''path'') es)))"

definition status_of :: "jsval \<Rightarrow> jsval option" where
  "status_of entry = get_prop entry ''status''"

section \<open>Sample data\<close>

text \<open>
  The runs below are on access-log lines and plain lines. None of them is JSON, so
  \<^verbatim>\<open>JSON.parse\<close> throws on each: \<open>not_json\<close>. Their time stamps, in the format of
  the access logs, are not dates that \<^verbatim>\<open>new Date\<close> reads: \<open>invalid_date\<close>.
\<close>

definition not_json :: "string \<Rightarrow> jsval option" where
  "not_json line = None"

definition invalid_date :: "jsval \<Rightarrow> (nat \<times> nat) option" where
  "invalid_date v = None"

text \<open>The nginx log of \<^verbatim>\<open>src/test.js\<close>.\<close>

definition nginx_lines :: "string list" where
  "nginx_lines =
     [''192.168.1.1 - - [19/Feb/2026:10:00:00 +0000] '' @ dquote @ ''GET /api/v1/users HTTP/1.1''
        @ dquote @ '' 200 1234 '' @ dquote @ ''-'' @ dquote @ '' '' @ dquote @ ''Mozilla/5.0'' @ dquote,
      ''192.168.1.2 - - [19/Feb/2026:10:00:01 +0000] '' @ dquote @ ''GET /api/v1/posts HTTP/1.1''
        @ dquote @ '' 200 567 '' @ dquote @ ''https://example.com'' @ dquote @ '' '' @ dquote
        @ ''Mozilla/5.0'' @ dquote,
      ''192.168.1.3 - - [19/Feb/2026:10:00:02 +0000] '' @ dquote
        @ ''GET /api/v1/nonexistent HTTP/1.1'' @ dquote @ '' 404 89 '' @ dquote @ ''-'' @ dquote
        @ '' '' @ dquote @ ''curl/7.68.0'' @ dquote,
      ''192.168.1.1 - - [19/Feb/2026:10:00:03 +0000] '' @ dquote
        @ ''POST /api/v1/auth/login HTTP/1.1'' @ dquote @ '' 500 234 '' @ dquote @ ''-'' @ dquote
        @ '' '' @ dquote @ ''Mozilla/5.0'' @ dquote,
      ''192.168.1.4 - - [19/Feb/2026:10:00:04 +0000] '' @ dquote @ ''GET /api/v1/users HTTP/1.1''
        @ dquote @ '' 403 45 '' @ dquote @ ''-'' @ dquote @ '' '' @ dquote @ ''curl/7.68.0'' @ dquote]"

definition nginxLog :: string where
  "nginxLog = join [CHR 0x0A] nginx_lines"

definition scenarioA :: ParsedLog where
  "scenarioA = \<lparr> format = ''nginx'', entries = map parseNginxLine nginx_lines,
                   totalLines = 5, parsedEntries = 5 \<rparr>"

text \<open>Access-log lines whose status is \<open>000\<close> and whose size is \<open>0\<close>.\<close>

definition status_000_line :: string where
  "status_000_line =
     ''10.0.0.7 - - [19/Feb/2026:10:00:05 +0000] '' @ dquote @ ''GET /health HTTP/1.1'' @ dquote
     @ '' 000 17 '' @ dquote @ ''-'' @ dquote @ '' '' @ dquote @ ''probe'' @ dquote"

definition size_0_line :: string where
  "size_0_line =
     ''10.0.0.7 - - [19/Feb/2026:10:00:06 +0000] '' @ dquote @ ''GET /logo.png HTTP/1.1'' @ dquote
     @ '' 304 0''"

text \<open>A file with a blank line and a line that is no access-log line.\<close>

definition mixed_content :: string where
  "mixed_content =
     hd nginx_lines @ [CHR 0x0A] @ ''   '' @ [CHR 0x0A] @ ''not an access log line'' @ [CHR 0x0A]"

definition indented_content :: string where
  "indented_content = [CHR 0x0A, CHR 0x09, CHR 0x0A] @ hd nginx_lines @ [CHR 0x0A] @ ''tail''"





text \<open>Entries given by a path and a status.\<close>

definition request :: "string \<Rightarrow> int \<Rightarrow> jsval" where
  "request p s = JObj [(''path'', JStr p), (''status'', JNum s)]"

definition scenarioE :: ParsedLog where
  "scenarioE = \<lparr> format = ''nginx'',
                   entries = [request ''/b'' 200, request ''/a'' 200, request ''/c'' 200,
                              request ''/a'' 200, request ''/b'' 200],
                   totalLines = 5, parsedEntries = 5 \<rparr>"

definition numeric_paths :: ParsedLog where
  "numeric_paths = \<lparr> format = ''nginx'',
                       entries = [request ''2'' 200, request ''2'' 200,
                                  request ''1'' 200, request ''1'' 200],
                       totalLines = 4, parsedEntries = 4 \<rparr>"

definition empty_log :: ParsedLog where
  "empty_log = \<lparr> format = ''text'', entries = [], totalLines = 0, parsedEntries = 0 \<rparr>"

section \<open>Lines of a file\<close>

lemma dropWhile_all:
  assumes "\<forall>x\<in>set (dropWhile P l). P x"
  shows "list_all P l"
proof -
  have "set l = set (takeWhile P l) \<union> set (dropWhile P l)"
    by (metis set_append takeWhile_dropWhile_id)
  moreover have "\<forall>x\<in>set (takeWhile P l). P x"
    by (meson set_takeWhileD)
  ultimately have "\<forall>x\<in>set l. P x"
    using assms by blast
  then show ?thesis
    by (simp only: list_all_iff)
qed

lemma trim_empty_iff: "(trim l = []) = list_all is_ws l"
proof
  assume "trim l = []"
  then have "\<forall>x\<in>set (dropWhile is_ws l). is_ws x"
    by (simp add: trim_def)
  then show "list_all is_ws l" by (rule dropWhile_all)
next
  assume "list_all is_ws l"
  then have "dropWhile is_ws l = []" by (simp add: list_all_iff)
  then show "trim l = []" by (simp only: trim_def rev.simps dropWhile.simps)
qed

lemma lines_nonblank: "filter (\<lambda>l. trim l \<noteq> []) (split_nl content) = nonblank_lines content"
  by (simp add: nonblank_lines_def trim_empty_iff)

section \<open>File parser: counts and order\<close>

text \<open>
  C4. For every file content and every format selector, \<open>parseLogFile\<close> returns a
  parsed log in which \<open>parsedEntries \<le> totalLines\<close>, \<open>totalLines\<close> is the number of
  non-blank lines of the content, \<open>parsedEntries\<close> is the length of \<open>entries\<close>, and
  \<open>entries\<close> holds the results of the line parser on the non-blank lines, in the
  order of the lines, without the lines that did not parse.
\<close>

theorem parseLogFile_counts:
  assumes "fs filePath = Some content"
  shows "\<exists>parsed. parseLogFile JSON_parse fs filePath fmt = Inr parsed
           \<and> parsedEntries parsed \<le> totalLines parsed
           \<and> totalLines parsed = length (nonblank_lines content)
           \<and> parsedEntries parsed = length (entries parsed)
           \<and> entries parsed =
               filter (\<lambda>entry. entry \<noteq> JNull)
                 (map (parseLine JSON_parse (format parsed)) (nonblank_lines content))"
  using assms by (simp add: parseLogFile_def Let_def lines_nonblank)

text \<open>
  On a file of three lines, one of them blank and one not in the nginx format:
  two lines are counted and one entry is parsed.
\<close>

theorem parseLogFile_counts_witness:
  "[''access.log'' \<mapsto> mixed_content] ''access.log'' = Some mixed_content
   \<and> length (nonblank_lines mixed_content) = 2
   \<and> (\<exists>parsed. parseLogFile not_json [''access.log'' \<mapsto> mixed_content] ''access.log'' ''nginx''
                   = Inr parsed
           \<and> parsedEntries parsed \<le> totalLines parsed
           \<and> totalLines parsed = length (nonblank_lines mixed_content)
           \<and> parsedEntries parsed = length (entries parsed)
           \<and> entries parsed =
               filter (\<lambda>entry. entry \<noteq> JNull)
                 (map (parseLine not_json (format parsed)) (nonblank_lines mixed_content)))"
proof -
  have h: "[''access.log'' \<mapsto> mixed_content] ''access.log'' = Some mixed_content"
    by simp
  have n: "length (nonblank_lines mixed_content) = 2"
    by code_simp
  show ?thesis
    using h n
      parseLogFile_counts [where fs = "[''access.log'' \<mapsto> mixed_content]"
        and filePath = "''access.log''" and content = mixed_content
        and JSON_parse = not_json and fmt = "''nginx''"]
    by blast
qed

text \<open>
  C10. For a format selector that is none of \<open>json\<close>, \<open>nginx\<close>, \<open>apache\<close>, \<open>text\<close>
  and \<open>auto\<close>, \<open>parseLogFile\<close> does not fail and wraps every non-blank line as
  \<open>{raw: line}\<close>, so that \<open>parsedEntries = totalLines\<close>: the result is the one for
  \<open>text\<close>, except that its \<open>format\<close> is the selector.
\<close>

theorem parseLogFile_unknown_format:
  assumes "fs filePath = Some content"
    and "fmt \<notin> set [''json'', ''nginx'', ''apache'', ''text'', ''auto'']"
  shows "parseLogFile JSON_parse fs filePath fmt =
           Inr \<lparr> format = fmt,
                 entries = map (\<lambda>line. JObj [(''raw'', JStr line)]) (nonblank_lines content),
                 totalLines = length (nonblank_lines content),
                 parsedEntries = length (nonblank_lines content) \<rparr>
         \<and> parseLogFile JSON_parse fs filePath ''text'' =
           Inr \<lparr> format = ''text'',
                 entries = map (\<lambda>line. JObj [(''raw'', JStr line)]) (nonblank_lines content),
                 totalLines = length (nonblank_lines content),
                 parsedEntries = length (nonblank_lines content) \<rparr>"
proof -
  have raw: "filter (\<lambda>entry. entry \<noteq> JNull) (map (\<lambda>line. JObj [(''raw'', JStr line)]) ls)
               = map (\<lambda>line. JObj [(''raw'', JStr line)]) ls" for ls
    by (induction ls) simp_all
  have f: "parseLine JSON_parse fmt = (\<lambda>line. JObj [(''raw'', JStr line)])"
    using assms(2) by (auto simp: parseLine_def fun_eq_iff)
  have t: "parseLine JSON_parse ''text'' = (\<lambda>line. JObj [(''raw'', JStr line)])"
    by (auto simp: parseLine_def fun_eq_iff)
  have na: "fmt \<noteq> ''auto''" using assms(2) by auto
  show ?thesis
    using assms(1) na by (simp add: parseLogFile_def Let_def lines_nonblank f t raw)
qed

text \<open>The selector \<open>syslog\<close> on a file of two non-blank lines.\<close>

theorem parseLogFile_unknown_format_witness:
  "[''access.log'' \<mapsto> mixed_content] ''access.log'' = Some mixed_content
   \<and> ''syslog'' \<notin> set [''json'', ''nginx'', ''apache'', ''text'', ''auto'']
   \<and> parseLogFile not_json [''access.log'' \<mapsto> mixed_content] ''access.log'' ''syslog'' =
        Inr \<lparr> format = ''syslog'',
              entries = [JObj [(''raw'', JStr (hd nginx_lines))],
                         JObj [(''raw'', JStr ''not an access log line'')]],
              totalLines = 2, parsedEntries = 2 \<rparr>"
proof -
  have h: "[''access.log'' \<mapsto> mixed_content] ''access.log'' = Some mixed_content"
    by simp
  have m: "''syslog'' \<notin> set [''json'', ''nginx'', ''apache'', ''text'', ''auto'']"
    by code_simp
  have n: "nonblank_lines mixed_content = [hd nginx_lines, ''not an access log line'']"
    by code_simp
  show ?thesis
    using h m
      parseLogFile_unknown_format [where fs = "[''access.log'' \<mapsto> mixed_content]"
        and filePath = "''access.log''" and content = mixed_content
        and JSON_parse = not_json and fmt = "''syslog''"]
    by (simp add: n)
qed

section \<open>Format detector\<close>

lemma find_filter: "List.find P xs = (case filter P xs of [] \<Rightarrow> None | x # _ \<Rightarrow> Some x)"
  by (induction xs) simp_all

lemma detectFormat_first:
  "detectFormat JSON_parse content =
     (case first_nonblank content of
        None \<Rightarrow> ''text''
      | Some firstLine \<Rightarrow>
          if JSON_parse firstLine \<noteq> None then ''json''
          else if regex_test nginxPattern firstLine then ''nginx''
          else if regex_test apachePattern firstLine then ''apache''
          else ''text'')"
  by (simp add: detectFormat_def first_nonblank_def find_filter lines_nonblank nonblank_lines_def
           split: list.splits)

text \<open>
  C6. \<open>detectFormat\<close> always returns one of the four formats, and its result is a
  function of the first non-blank line of the content: two contents with the same
  first non-blank line get the same format; a content with no non-blank line is
  \<open>text\<close>; otherwise the line is tried as JSON, then against the nginx pattern,
  then against the Apache pattern, and is \<open>text\<close> if all three fail.
\<close>

theorem detectFormat_first_line:
  "(first_nonblank c1 = first_nonblank c2 \<longrightarrow> detectFormat JSON_parse c1 = detectFormat JSON_parse c2)
   \<and> (first_nonblank c = None \<longrightarrow> detectFormat JSON_parse c = ''text'')
   \<and> (first_nonblank c' = Some l \<longrightarrow>
        detectFormat JSON_parse c' =
          (if JSON_parse l \<noteq> None then ''json''
           else if regex_test nginxPattern l then ''nginx''
           else if regex_test apachePattern l then ''apache''
           else ''text''))
   \<and> detectFormat JSON_parse c \<in> set [''json'', ''nginx'', ''apache'', ''text'']"
  by (simp add: detectFormat_first split: option.splits)

text \<open>
  Two files that start with the same nginx line, one of them after blank lines, and
  a file of white space.
\<close>

theorem detectFormat_first_line_witness:
  "first_nonblank mixed_content = first_nonblank indented_content
   \<and> detectFormat not_json mixed_content = detectFormat not_json indented_content
   \<and> first_nonblank ''  '' = None
   \<and> detectFormat not_json ''  '' = ''text''
   \<and> first_nonblank indented_content = Some (hd nginx_lines)
   \<and> detectFormat not_json indented_content = ''nginx''"
proof -
  have a: "first_nonblank mixed_content = Some (hd nginx_lines)" by code_simp
  have b: "first_nonblank indented_content = Some (hd nginx_lines)" by code_simp
  have c: "first_nonblank ''  '' = None" by code_simp
  have d: "regex_test nginxPattern (hd nginx_lines)" by code_simp
  show ?thesis
    using a b c d
      detectFormat_first_line [of mixed_content indented_content not_json "''  ''"
        indented_content "hd nginx_lines"]
    by (simp add: not_json_def)
qed

section \<open>Filter engine\<close>



section \<open>Summary of an empty log\<close>

text \<open>
  C8. For a parsed log without entries, \<open>generateSummary\<close> returns the summary that
  has the format, \<open>totalEntries = 0\<close> and \<open>fieldsDetected = []\<close> and no other
  field: no status counts, error count, error rate, client or server errors, top
  paths or time statistics.
\<close>

theorem generateSummary_empty:
  assumes "entries parsed = []"
  shows "generateSummary Date_local parsed =
           \<lparr> format = format parsed, totalEntries = 0, fieldsDetected = [],
             statusCounts = None, errorCount = None, errorRate = None,
             clientErrors = None, serverErrors = None, topPaths = None, timeStats = None \<rparr>"
  using assms by (simp add: generateSummary_def)

theorem generateSummary_empty_witness:
  "entries empty_log = []
   \<and> generateSummary invalid_date empty_log =
        \<lparr> format = ''text'', totalEntries = 0, fieldsDetected = [],
          statusCounts = None, errorCount = None, errorRate = None,
          clientErrors = None, serverErrors = None, topPaths = None, timeStats = None \<rparr>"
proof -
  have h: "entries empty_log = []" by (simp add: empty_log_def)
  show ?thesis
    using h generateSummary_empty [where parsed = empty_log and Date_local = invalid_date]
    by (simp add: empty_log_def)
qed

section \<open>Falsy values and inherited properties\<close>

text \<open>
  C2. An access-log line whose status is \<open>000\<close> parses to an entry whose status is
  the number \<open>0\<close>; \<open>filterByStatus\<close> with the status codes \<open>[0]\<close> does not return
  it, although its status is present and in the list: \<open>0\<close> is falsy.
\<close>

theorem filterByStatus_drops_status_0:
  "status_of (parseNginxLine status_000_line) = Some (JNum 0)
   \<and> filterByStatus [parseNginxLine status_000_line] [0] = []"
  by code_simp

text \<open>
  C3. An access-log line whose size is \<open>0\<close> parses to an entry whose size is the
  number \<open>0\<close>; \<open>aggregateByField\<close> counts it under \<open>unknown\<close>, not under \<open>0\<close>,
  and likewise a field that holds \<open>false\<close> or the empty string.
\<close>

theorem aggregateByField_falsy_unknown:
  "get_prop (parseApacheLine size_0_line) ''size'' = Some (JNum 0)
   \<and> aggregateByField [parseApacheLine size_0_line] ''size'' = [(''unknown'', JNum 1)]
   \<and> aggregateByField [JObj [(''cached'', JBool False)]] ''cached'' = [(''unknown'', JNum 1)]
   \<and> aggregateByField [JObj [(''user'', JStr [])]] ''user'' = [(''unknown'', JNum 1)]"
  by code_simp

text \<open>
  C9. An entry whose field holds the text \<open>__proto__\<close> is counted nowhere: the
  mapping stays empty, and its counts sum to \<open>0\<close>, not to the one entry. An entry
  whose field holds \<open>constructor\<close> leaves a text, not a count.
\<close>

theorem aggregateByField_loses_entry:
  "aggregateByField [JObj [(''level'', JStr ''__proto__'')]] ''level'' = []
   \<and> aggregateByField [JObj [(''level'', JStr ''constructor'')]] ''level''
        = [(''constructor'', JStr ''function Object() { [native code] }1'')]"
  by code_simp

section \<open>Status analysis\<close>

lemma aggregate_keys: "aggregateByField es f = foldl increment [] (map (field_key f) es)"
proof -
  have "count_step f = (\<lambda>counts entry. increment counts (field_key f entry))"
    by (simp add: fun_eq_iff count_step_def field_key_def)
  then show ?thesis
    by (simp add: aggregateByField_def foldl_map)
qed

lemma filterByStatus_length:
  "length (filterByStatus es codes) =
     length (filter (\<lambda>v. truthy v \<and> array_includes codes v) (map status_of es))"
  by (simp add: filterByStatus_def status_of_def filter_map o_def)

lemma status_keys:
  "map (field_key ''status'') es =
     map (\<lambda>v. ToString (or_else v (JStr ''unknown''))) (map status_of es)"
  by (simp add: field_key_def status_of_def)

lemma generateSummary_status:
  assumes "entries parsed \<noteq> []" and "format parsed = ''nginx''"
  shows "statusCounts (generateSummary Date_local parsed)
           = Some (aggregateByField (entries parsed) ''status'')"
    and "errorCount (generateSummary Date_local parsed)
           = Some (length (filterByStatus (entries parsed) [400, 401, 403, 404, 500, 502, 503, 504]))"
    and "errorRate (generateSummary Date_local parsed)
           = Some (toFixed2 (of_nat (length (filterByStatus (entries parsed)
                                               [400, 401, 403, 404, 500, 502, 503, 504]))
                             / of_nat (length (entries parsed)) * 100) @ ''%'')"
    and "clientErrors (generateSummary Date_local parsed)
           = Some (length (filterByStatus (entries parsed) [400, 401, 403, 404]))"
    and "serverErrors (generateSummary Date_local parsed)
           = Some (length (filterByStatus (entries parsed) [500, 502, 503, 504]))"
  using assms by (simp_all add: generateSummary_def status_analysis_def top_paths_def Let_def)

text \<open>
  C1, amended. For a parsed nginx log of five entries whose statuses are
  \<open>200, 200, 404, 500, 403\<close>, the summary has the status counts
  \<open>{200: 2, 403: 1, 404: 1, 500: 1}\<close>, two client errors, one server error, three
  errors, and the error rate \<open>60.00%\<close>: three errors out of five entries.
\<close>

theorem scenario_A_summary:
  assumes "format parsed = ''nginx''"
    and "map status_of (entries parsed)
           = [Some (JNum 200), Some (JNum 200), Some (JNum 404), Some (JNum 500), Some (JNum 403)]"
  shows "statusCounts (generateSummary Date_local parsed)
           = Some [(''200'', JNum 2), (''403'', JNum 1), (''404'', JNum 1), (''500'', JNum 1)]
         \<and> clientErrors (generateSummary Date_local parsed) = Some 2
         \<and> serverErrors (generateSummary Date_local parsed) = Some 1
         \<and> errorCount (generateSummary Date_local parsed) = Some 3
         \<and> errorRate (generateSummary Date_local parsed) = Some ''60.00%''"
proof -
  let ?sts = "[Some (JNum 200), Some (JNum 200), Some (JNum 404), Some (JNum 500), Some (JNum 403)]"
  have ne: "entries parsed \<noteq> []"
    using assms(2) by auto
  have len: "length (entries parsed) = 5"
    using arg_cong [OF assms(2), of length] by simp
  have keys: "foldl increment [] (map (\<lambda>v. ToString (or_else v (JStr ''unknown''))) ?sts)
                = [(''200'', JNum 2), (''403'', JNum 1), (''404'', JNum 1), (''500'', JNum 1)]"
    by code_simp
  have counts: "aggregateByField (entries parsed) ''status''
                  = [(''200'', JNum 2), (''403'', JNum 1), (''404'', JNum 1), (''500'', JNum 1)]"
    by (simp only: aggregate_keys status_keys assms(2) keys)
  have e: "length (filter (\<lambda>v. truthy v \<and> array_includes [400, 401, 403, 404, 500, 502, 503, 504] v) ?sts) = 3"
    by code_simp
  have c: "length (filter (\<lambda>v. truthy v \<and> array_includes [400, 401, 403, 404] v) ?sts) = 2"
    by code_simp
  have s: "length (filter (\<lambda>v. truthy v \<and> array_includes [500, 502, 503, 504] v) ?sts) = 1"
    by code_simp
  have rate: "toFixed2 (of_nat 3 / of_nat 5 * 100) @ ''%'' = ''60.00%''"
    by code_simp
  have errors: "length (filterByStatus (entries parsed) [400, 401, 403, 404, 500, 502, 503, 504]) = 3"
    by (simp only: filterByStatus_length assms(2) e)
  have client: "length (filterByStatus (entries parsed) [400, 401, 403, 404]) = 2"
    by (simp only: filterByStatus_length assms(2) c)
  have server: "length (filterByStatus (entries parsed) [500, 502, 503, 504]) = 1"
    by (simp only: filterByStatus_length assms(2) s)
  show ?thesis
    by (simp only: generateSummary_status [OF ne assms(1)] counts errors client server len rate
          simp_thms)
qed

text \<open>The nginx log of the tests: its five entries have these statuses.\<close>

theorem scenario_A_summary_witness:
  "format scenarioA = ''nginx''
   \<and> map status_of (entries scenarioA)
        = [Some (JNum 200), Some (JNum 200), Some (JNum 404), Some (JNum 500), Some (JNum 403)]
   \<and> statusCounts (generateSummary invalid_date scenarioA)
        = Some [(''200'', JNum 2), (''403'', JNum 1), (''404'', JNum 1), (''500'', JNum 1)]
   \<and> clientErrors (generateSummary invalid_date scenarioA) = Some 2
   \<and> serverErrors (generateSummary invalid_date scenarioA) = Some 1
   \<and> errorCount (generateSummary invalid_date scenarioA) = Some 3
   \<and> errorRate (generateSummary invalid_date scenarioA) = Some ''60.00%''"
proof -
  have f: "format scenarioA = ''nginx''"
    by (simp add: scenarioA_def)
  have m: "map status_of (entries scenarioA)
             = [Some (JNum 200), Some (JNum 200), Some (JNum 404), Some (JNum 500), Some (JNum 403)]"
    by code_simp
  show ?thesis
    using f m scenario_A_summary [OF f m, of invalid_date]
    by simp
qed

text \<open>
  C1 as stated fails: on the nginx log of the tests, whose statuses are
  \<open>200, 200, 404, 500, 403\<close>, the error rate is not \<open>80.00%\<close>.
\<close>

theorem scenario_A_errorRate_counterexample:
  "map status_of (entries scenarioA)
        = [Some (JNum 200), Some (JNum 200), Some (JNum 404), Some (JNum 500), Some (JNum 403)]
   \<and> errorRate (generateSummary invalid_date scenarioA) \<noteq> Some ''80.00%''"
  by code_simp

lemma parseLogFile_scenarioA:
  "parseLogFile not_json [''nginx.log'' \<mapsto> nginxLog] ''nginx.log'' ''nginx'' = Inr scenarioA"
  by code_simp

section \<open>Aggregation over ordinary keys\<close>

lemma first_seen_snoc:
  "first_seen (ks @ [k]) = (if k \<in> set ks then first_seen ks else first_seen ks @ [k])"
  by (simp add: first_seen_def)

lemma set_first_seen: "set (first_seen ks) = set ks"
  by (simp add: first_seen_def)

lemma map_of_graph:
  "map_of (map (\<lambda>k. (k, f k)) xs) k = (if k \<in> set xs then Some (f k) else None)"
  by (induction xs) simp_all

lemma map_of_tally:
  "map_of (tally ks) k = (if k \<in> set ks then Some (JNum (int (count_list ks k))) else None)"
  by (simp add: tally_def map_of_graph set_first_seen)

lemma tally_snoc_old:
  assumes "k \<in> set ks"
  shows "map (\<lambda>(k', v'). if k' = k then (k', JNum (int (count_list ks k) + 1)) else (k', v'))
           (tally ks) = tally (ks @ [k])"
  using assms by (auto simp: tally_def first_seen_snoc)

lemma tally_snoc_new:
  assumes "k \<notin> set ks"
  shows "tally ks @ [(k, JNum 1)] = tally (ks @ [k])"
  using assms by (auto simp: tally_def first_seen_snoc set_first_seen)

lemma increment_tally:
  assumes "ordinary_key k"
  shows "increment (tally ks) k = tally (ks @ [k])"
proof (cases "k \<in> set ks")
  case True
  then have pos: "count_list ks k \<noteq> 0"
    by (simp add: count_list_0_iff)
  have own: "map_of (tally ks) k = Some (JNum (int (count_list ks k)))"
    using True by (simp add: map_of_tally)
  have "increment (tally ks) k =
          map (\<lambda>(k', v'). if k' = k then (k', JNum (int (count_list ks k) + 1)) else (k', v'))
            (tally ks)"
    using pos by (simp add: increment_def obj_get_def obj_set_def own or_else_def js_add_def)
  then show ?thesis
    by (simp only: tally_snoc_old [OF True])
next
  case False
  have own: "map_of (tally ks) k = None"
    using False by (simp add: map_of_tally)
  have proto: "Object_prototype k = None" and idx: "\<not> is_array_index k"
    using assms by (simp_all add: ordinary_key_def)
  have np: "k \<noteq> ''__proto__''"
    using proto by (auto simp: Object_prototype_def)
  have "increment (tally ks) k = tally ks @ [(k, JNum 1)]"
    using np idx
    by (simp add: increment_def obj_get_def obj_set_def own proto or_else_def js_add_def)
  then show ?thesis
    by (simp only: tally_snoc_new [OF False])
qed

lemma foldl_increment_tally:
  "list_all ordinary_key ks \<Longrightarrow> foldl increment [] ks = tally ks"
proof (induction ks rule: rev_induct)
  case Nil
  show ?case by (simp add: tally_def first_seen_def)
next
  case (snoc k ks)
  then show ?case by (simp add: increment_tally)
qed

lemma aggregate_tally:
  assumes "list_all (\<lambda>e. ordinary_key (field_key f e)) es"
  shows "aggregateByField es f = tally (map (field_key f) es)"
proof -
  have "list_all ordinary_key (map (field_key f) es)"
    using assms by (simp add: list_all_iff)
  then show ?thesis
    by (simp only: aggregate_keys foldl_increment_tally)
qed

section \<open>Sorting counts\<close>

lemma insert_by_insort:
  assumes "\<forall>p\<in>set (x # ys). \<exists>n. snd p = JNum n"
  shows "insert_by (\<lambda>a b. js_sub (snd b) (snd a)) x ys
           = insort_key (\<lambda>p. - num_of (snd p)) x ys"
  using assms
proof (induction ys)
  case Nil
  show ?case by simp
next
  case (Cons y ys)
  obtain n where x: "snd x = JNum n" using Cons.prems by auto
  obtain m where y: "snd y = JNum m" using Cons.prems by auto
  have "insert_by (\<lambda>a b. js_sub (snd b) (snd a)) x ys
          = insort_key (\<lambda>p. - num_of (snd p)) x ys"
    using Cons by simp
  then show ?case
    by (simp add: x y js_sub_def)
qed

lemma array_sort_sort_key:
  assumes "\<forall>p\<in>set xs. \<exists>n. snd p = JNum n"
  shows "array_sort (\<lambda>a b. js_sub (snd b) (snd a)) xs = sort_key (\<lambda>p. - num_of (snd p)) xs"
  using assms
proof (induction xs)
  case Nil
  show ?case by (simp add: array_sort_def)
next
  case (Cons x xs)
  have ih: "array_sort (\<lambda>a b. js_sub (snd b) (snd a)) xs = sort_key (\<lambda>p. - num_of (snd p)) xs"
    using Cons by simp
  have "\<forall>p\<in>set (x # sort_key (\<lambda>p. - num_of (snd p)) xs). \<exists>n. snd p = JNum n"
    using Cons.prems by simp
  then have "insert_by (\<lambda>a b. js_sub (snd b) (snd a)) x (sort_key (\<lambda>p. - num_of (snd p)) xs)
               = insort_key (\<lambda>p. - num_of (snd p)) x (sort_key (\<lambda>p. - num_of (snd p)) xs)"
    by (rule insert_by_insort)
  then show ?case
    using ih by (simp add: array_sort_def)
qed

lemma tally_counts: "\<forall>p\<in>set (tally ks). \<exists>n. snd p = JNum n"
  by (auto simp: tally_def)

lemma generateSummary_topPaths:
  assumes "entries parsed \<noteq> []" and "format parsed = ''nginx'' \<or> format parsed = ''apache''"
  shows "topPaths (generateSummary Date_local parsed)
           = Some (take 10 (array_sort (\<lambda>a b. js_sub (snd b) (snd a))
                              (aggregateByField (entries parsed) ''path'')))"
  using assms by (auto simp: generateSummary_def status_analysis_def top_paths_def Let_def)

text \<open>
  The list that \<open>topPaths_spec\<close> cuts to ten is sorted by descending count, and among
  the pairs of one count it keeps the first-seen order.
\<close>

lemma sorted_tally_stable:
  "sorted (map (\<lambda>p. - num_of (snd p)) (sort_key (\<lambda>p. - num_of (snd p)) (tally ks)))
   \<and> filter (\<lambda>p. - num_of (snd p) = c) (sort_key (\<lambda>p. - num_of (snd p)) (tally ks))
       = filter (\<lambda>p. - num_of (snd p) = c) (tally ks)"
  by (simp add: sort_key_stable)

section \<open>Top paths\<close>

text \<open>
  C7, amended. For a non-empty list of entries of an nginx or Apache log in which
  no path key is an array index (and none names a property of \<^verbatim>\<open>Object.prototype\<close>),
  \<open>topPaths\<close> is the list of the pairs of a path value and its count, sorted by
  descending count, ties in the order in which the path values were first seen,
  cut to ten pairs.
\<close>

theorem topPaths_first_seen:
  assumes "entries parsed \<noteq> []"
    and "format parsed = ''nginx'' \<or> format parsed = ''apache''"
    and "list_all (\<lambda>e. ordinary_key (field_key ''path'' e)) (entries parsed)"
  shows "topPaths (generateSummary Date_local parsed) = Some (topPaths_spec (entries parsed))"
proof -
  have "aggregateByField (entries parsed) ''path'' = tally (map (field_key ''path'') (entries parsed))"
    using assms(3) by (rule aggregate_tally)
  then show ?thesis
    by (simp only: generateSummary_topPaths [OF assms(1) assms(2)] topPaths_spec_def
          array_sort_sort_key [OF tally_counts])
qed

text \<open>
  Scenario E: the paths \<open>/b\<close> and \<open>/a\<close> occur twice and \<open>/c\<close> once; the two tied
  paths come first, \<open>/b\<close> before \<open>/a\<close> as in the log.
\<close>

theorem topPaths_first_seen_witness:
  "entries scenarioE \<noteq> []
   \<and> format scenarioE = ''nginx''
   \<and> list_all (\<lambda>e. ordinary_key (field_key ''path'' e)) (entries scenarioE)
   \<and> map (field_key ''path'') (entries scenarioE) = [''/b'', ''/a'', ''/c'', ''/a'', ''/b'']
   \<and> topPaths (generateSummary invalid_date scenarioE)
        = Some [(''/b'', JNum 2), (''/a'', JNum 2), (''/c'', JNum 1)]"
proof -
  have a: "entries scenarioE \<noteq> []" by (simp add: scenarioE_def)
  have b: "format scenarioE = ''nginx''" by (simp add: scenarioE_def)
  have c: "list_all (\<lambda>e. ordinary_key (field_key ''path'' e)) (entries scenarioE)"
    by code_simp
  have d: "map (field_key ''path'') (entries scenarioE) = [''/b'', ''/a'', ''/c'', ''/a'', ''/b'']"
    by code_simp
  have e: "topPaths_spec (entries scenarioE) = [(''/b'', JNum 2), (''/a'', JNum 2), (''/c'', JNum 1)]"
    by code_simp
  show ?thesis
    using a b c d e
      topPaths_first_seen [where parsed = scenarioE and Date_local = invalid_date]
    by simp
qed

text \<open>
  C7 as stated fails where the paths are array indices: in a log whose paths are
  \<open>2, 2, 1, 1\<close> the path \<open>2\<close> is seen first, and \<open>topPaths\<close> lists \<open>1\<close> first.
\<close>

theorem topPaths_numeric_counterexample:
  "map (field_key ''path'') (entries numeric_paths) = [''2'', ''2'', ''1'', ''1'']
   \<and> topPaths_spec (entries numeric_paths) = [(''2'', JNum 2), (''1'', JNum 2)]
   \<and> topPaths (generateSummary invalid_date numeric_paths) = Some [(''1'', JNum 2), (''2'', JNum 2)]
   \<and> topPaths (generateSummary invalid_date numeric_paths)
        \<noteq> Some (topPaths_spec (entries numeric_paths))"
  by code_simp

section \<open>What the filter and the aggregator guarantee\<close>

text \<open>
  \<open>filterByStatus\<close> keeps, in order, the entries whose status is a number other than
  \<open>0\<close> that is in the list.
\<close>

lemma filterByStatus_nonzero:
  "filterByStatus es codes =
     filter (\<lambda>e. case status_of e of
                    Some (JNum n) \<Rightarrow> n \<noteq> 0 \<and> n \<in> set codes
                  | _ \<Rightarrow> False) es"
proof -
  have "(truthy v \<and> array_includes codes v) =
          (case v of Some (JNum n) \<Rightarrow> n \<noteq> 0 \<and> n \<in> set codes | _ \<Rightarrow> False)" for v
  proof (cases v)
    case None
    then show ?thesis by simp
  next
    case (Some w)
    then show ?thesis by (cases w) simp_all
  qed
  then show ?thesis
    by (simp add: filterByStatus_def status_of_def)
qed

text \<open>
  A mapping of counts is well formed if its keys are distinct and its values are
  positive numbers. Counting one more entry under a key that names no property of
  \<^verbatim>\<open>Object.prototype\<close> keeps it well formed and adds one to the sum of the counts.
\<close>

lemma insert_index_set: "set (insert_index k v ps) = insert (k, v) (set ps)"
  by (induction ps) (auto split: if_splits)

lemma insert_index_keys: "set (map fst (insert_index k v ps)) = insert k (set (map fst ps))"
  by (simp add: insert_index_set)

lemma insert_index_distinct:
  "k \<notin> set (map fst ps) \<Longrightarrow> distinct (map fst ps) \<Longrightarrow> distinct (map fst (insert_index k v ps))"
proof (induction ps)
  case Nil
  show ?case by simp
next
  case (Cons p ps)
  then have "distinct (map fst (insert_index k v ps))" and "fst p \<notin> set (map fst ps)"
      and "fst p \<noteq> k"
    by auto
  then have "fst p \<notin> set (map fst (insert_index k v ps))"
    by (simp only: insert_index_keys) simp
  then show ?case
    using Cons \<open>distinct (map fst (insert_index k v ps))\<close> by (cases p) auto
qed

lemma insert_index_values: "set (map snd (insert_index k v ps)) = insert v (set (map snd ps))"
  by (simp add: insert_index_set)

lemma insert_index_sum:
  "sum_list (map (\<lambda>p. num_of (snd p)) (insert_index k v ps))
     = num_of v + sum_list (map (\<lambda>p. num_of (snd p)) ps)"
  by (induction ps) (auto split: if_splits)

lemma update_sum:
  assumes "distinct (map fst ps)" and "map_of ps k = Some (JNum n)"
  shows "sum_list (map (\<lambda>p. num_of (snd p))
                    (map (\<lambda>(k', v'). if k' = k then (k', JNum (n + 1)) else (k', v')) ps))
           = sum_list (map (\<lambda>p. num_of (snd p)) ps) + 1"
  using assms
proof (induction ps)
  case Nil
  then show ?case by simp
next
  case (Cons p ps)
  obtain k' v' where p: "p = (k', v')" by (cases p)
  show ?case
  proof (cases "k' = k")
    case True
    then have "k \<notin> fst ` set ps" using Cons.prems(1) p by auto
    then have "map (\<lambda>(k', v'). if k' = k then (k', JNum (n + 1)) else (k', v')) ps = ps"
      by (induction ps) auto
    moreover have "v' = JNum n" using Cons.prems(2) p True by simp
    ultimately show ?thesis using p True by simp
  next
    case False
    then have "map_of ps k = Some (JNum n)" using Cons.prems(2) p by simp
    then show ?thesis using Cons p False by simp
  qed
qed

lemma increment_well_formed:
  assumes "distinct (map fst counts)"
    and "\<forall>v\<in>set (map snd counts). \<exists>n. v = JNum n \<and> 0 < n"
    and "Object_prototype k = None"
  shows "distinct (map fst (increment counts k))
         \<and> (\<forall>v\<in>set (map snd (increment counts k)). \<exists>n. v = JNum n \<and> 0 < n)
         \<and> sum_list (map (\<lambda>p. num_of (snd p)) (increment counts k))
             = sum_list (map (\<lambda>p. num_of (snd p)) counts) + 1"
proof (cases "map_of counts k")
  case None
  then have new: "k \<notin> set (map fst counts)"
    by (simp add: map_of_eq_None_iff)
  have np: "k \<noteq> ''__proto__''"
    using assms(3) by (auto simp: Object_prototype_def)
  have inc: "increment counts k =
               (if is_array_index k then insert_index k (JNum 1) counts else counts @ [(k, JNum 1)])"
    using None np assms(3)
    by (simp add: increment_def obj_get_def obj_set_def or_else_def js_add_def)
  show ?thesis
  proof (cases "is_array_index k")
    case True
    have "\<forall>v\<in>set (map snd (insert_index k (JNum 1) counts)). \<exists>n. v = JNum n \<and> 0 < n"
      using assms(2) by (simp only: insert_index_values) simp
    then show ?thesis
      using inc True new assms(1)
      by (simp add: insert_index_distinct insert_index_sum)
  next
    case False
    then show ?thesis
      using inc new assms(1,2) by auto
  qed
next
  case (Some v)
  then have "v \<in> set (map snd counts)"
    by (metis image_eqI list.set_map map_of_SomeD snd_conv)
  then obtain n where n: "v = JNum n" "0 < n"
    using assms(2) by blast
  have inc: "increment counts k =
               map (\<lambda>(k', v'). if k' = k then (k', JNum (n + 1)) else (k', v')) counts"
    using Some n by (simp add: increment_def obj_get_def obj_set_def or_else_def js_add_def)
  have keys: "map fst (increment counts k) = map fst counts"
    by (simp add: inc case_prod_unfold o_def)
  have vals: "\<forall>v\<in>set (map snd (increment counts k)). \<exists>m. v = JNum m \<and> 0 < m"
    using assms(2) n by (auto simp: inc split: if_splits)
  have "sum_list (map (\<lambda>p. num_of (snd p)) (increment counts k))
          = sum_list (map (\<lambda>p. num_of (snd p)) counts) + 1"
    using update_sum [OF assms(1)] Some n by (simp only: inc)
  then show ?thesis
    using keys vals assms(1) by simp
qed

text \<open>
  So the counts of \<open>aggregateByField\<close> sum to the number of entries whenever no key
  names a property of \<^verbatim>\<open>Object.prototype\<close>.
\<close>

lemma aggregate_counts_sum:
  assumes "list_all (\<lambda>e. Object_prototype (field_key f e) = None) es"
  shows "sum_list (map (\<lambda>p. num_of (snd p)) (aggregateByField es f)) = int (length es)"
proof -
  have "list_all (\<lambda>k. Object_prototype k = None) ks \<Longrightarrow>
          distinct (map fst (foldl increment [] ks))
          \<and> (\<forall>v\<in>set (map snd (foldl increment [] ks)). \<exists>n. v = JNum n \<and> 0 < n)
          \<and> sum_list (map (\<lambda>p. num_of (snd p)) (foldl increment [] ks)) = int (length ks)" for ks
  proof (induction ks rule: rev_induct)
    case Nil
    show ?case by simp
  next
    case (snoc k ks)
    then have ih: "distinct (map fst (foldl increment [] ks))"
        "\<forall>v\<in>set (map snd (foldl increment [] ks)). \<exists>n. v = JNum n \<and> 0 < n"
        "sum_list (map (\<lambda>p. num_of (snd p)) (foldl increment [] ks)) = int (length ks)"
      by simp_all
    have k: "Object_prototype k = None" using snoc.prems by simp
    show ?case
      using increment_well_formed [OF ih(1) ih(2) k] ih(3) by simp
  qed
  moreover have "list_all (\<lambda>k. Object_prototype k = None) (map (field_key f) es)"
    using assms by (simp add: list_all_iff)
  ultimately show ?thesis
    by (simp add: aggregate_keys)
qed

end
